theory Spec2Isabelle
  imports Complex_Main "HOL-Library.Sublist"
begin

section \<open>Data model\<close>

text \<open>
  A Task is the object \<^verbatim>\<open>{ id, title, completed }\<close> that the backend sends and
  \<^verbatim>\<open>App.js\<close> keeps in its \<^verbatim>\<open>tasks\<close> array. The id is opaque: the code only
  compares it with \<^verbatim>\<open>===\<close>, so it is a type parameter. The field \<^verbatim>\<open>id\<close> is
  written \<open>id_t\<close> here, since \<open>id\<close> is the identity function of HOL.
\<close>

record 'i task =
  id_t :: 'i
  title :: string
  completed :: bool

text \<open>
  The body of a successful POST or PATCH is the object \<^verbatim>\<open>{ task: Task }\<close>:
  \<^verbatim>\<open>App.js\<close> reads \<^verbatim>\<open>res.task\<close> from what \<^verbatim>\<open>createTask\<close> and
  \<^verbatim>\<open>patchTaskCompletion\<close> resolve with (lines 88 and 107).
\<close>

record 'i envelope =
  task :: "'i task"

text \<open>An axios response; the client reads nothing of it but \<^verbatim>\<open>res.data\<close>.\<close>

record 'd response =
  data :: 'd

text \<open>
  An awaited promise either rejects (the \<^verbatim>\<open>catch\<close> branch runs; no handler looks at
  the error value) or resolves with a value.
\<close>

datatype 'a settled = Rejected | Resolved 'a

text \<open>
  The four requests the client can issue. \<^verbatim>\<open>api.post(`/tasks`, { title })\<close> is
  \<open>POST_tasks title\<close>, \<^verbatim>\<open>api.patch(`/tasks/${id}`, { completed })\<close> is
  \<open>PATCH_task id completed\<close>, and so on.
\<close>

datatype 'i request =
    GET_tasks
  | POST_tasks string
  | PATCH_task 'i bool
  | DELETE_task 'i

text \<open>
  The REST backend is not part of the repository. It enters as a parameter: what it
  answers to each of the four requests.
\<close>

record 'i backend =
  on_get :: "'i task list response settled"
  on_post :: "string \<Rightarrow> 'i envelope response settled"
  on_patch :: "'i \<Rightarrow> bool \<Rightarrow> 'i envelope response settled"
  on_delete :: "'i \<Rightarrow> unit response settled"

section \<open>API client (\<^verbatim>\<open>lib/api.js\<close>)\<close>

text \<open>
  Each operation sends one request through the axios instance and returns
  \<^verbatim>\<open>res.data\<close>, or rejects when the request does. The list of requests sent so
  far is threaded through, so that a theorem can say that a handler sent nothing.
  The operations do not look at the body: they are polymorphic in its type \<open>'d\<close>.
\<close>

definition listTasks ::
  "'d response settled \<Rightarrow> 'i request list \<Rightarrow> 'd settled \<times> 'i request list" where
  "listTasks answer wire =
     (case answer of
        Rejected \<Rightarrow> (Rejected, wire @ [GET_tasks])
      | Resolved res \<Rightarrow> (Resolved (data res), wire @ [GET_tasks]))"

definition createTask ::
  "(string \<Rightarrow> 'd response settled) \<Rightarrow> string \<Rightarrow> 'i request list
     \<Rightarrow> 'd settled \<times> 'i request list" where
  "createTask answer ttl wire =
     (case answer ttl of
        Rejected \<Rightarrow> (Rejected, wire @ [POST_tasks ttl])
      | Resolved res \<Rightarrow> (Resolved (data res), wire @ [POST_tasks ttl]))"

definition patchTaskCompletion ::
  "('i \<Rightarrow> bool \<Rightarrow> 'd response settled) \<Rightarrow> 'i \<Rightarrow> bool \<Rightarrow> 'i request list
     \<Rightarrow> 'd settled \<times> 'i request list" where
  "patchTaskCompletion answer i c wire =
     (case answer i c of
        Rejected \<Rightarrow> (Rejected, wire @ [PATCH_task i c])
      | Resolved res \<Rightarrow> (Resolved (data res), wire @ [PATCH_task i c]))"

definition deleteTask ::
  "('i \<Rightarrow> 'd response settled) \<Rightarrow> 'i \<Rightarrow> 'i request list
     \<Rightarrow> bool settled \<times> 'i request list" where
  "deleteTask answer i wire =
     (case answer i of
        Rejected \<Rightarrow> (Rejected, wire @ [DELETE_task i])
      | Resolved res \<Rightarrow> (Resolved True, wire @ [DELETE_task i]))"

text \<open>
  Two shapes a JSON body that carries a Task can have: the Task object itself, or the
  object \<^verbatim>\<open>{ task: Task }\<close> around it. With both in one type, what an operation
  resolves with can be compared with the bare Task.
\<close>

datatype 'i body = Bare "'i task" | Wrapped "'i envelope"

section \<open>Board state (\<^verbatim>\<open>App.js\<close>)\<close>

datatype save_state = Idle | Saving | Saved | Error

text \<open>
  The component's state: the six \<^verbatim>\<open>useState\<close> cells (the input's \<^verbatim>\<open>title\<close> is
  \<open>title_in\<close>, as \<open>title\<close> is a Task's field), and around it
  \<^item> \<open>saveTimeout\<close>: the timer behind \<^verbatim>\<open>window.__taskBoardSaveTimeout\<close>, as the
    milliseconds left until its callback runs, \<open>None\<close> when no timer is pending;
  \<^item> \<open>inputFocused\<close>: whether the title input has the focus
    (\<^verbatim>\<open>inputRef.current?.focus()\<close>);
  \<^item> \<open>sent\<close>: the requests sent through the API client so far.
\<close>

record 'i board =
  tasks :: "'i task list"
  loading :: bool
  error :: string
  title_in :: string
  focusMode :: bool
  saveState :: save_state
  saveTimeout :: "nat option"
  inputFocused :: bool
  sent :: "'i request list"

text \<open>The state of a freshly mounted component, before its first \<^verbatim>\<open>load\<close>.\<close>

definition initial :: "'i board" where
  "initial =
     \<lparr>tasks = [], loading = True, error = [], title_in = [], focusMode = False,
      saveState = Idle, saveTimeout = None, inputFocused = False, sent = []\<rparr>"

subsection \<open>The save indicator and its timer\<close>

text \<open>
  \<^verbatim>\<open>setSavedSoon\<close> shows "saved", clears the pending timer and starts a new one of
  1200 ms whose callback shows "idle".
\<close>

definition setSavedSoon :: "'i board \<Rightarrow> 'i board" where
  "setSavedSoon s = s\<lparr>saveState := Saved, saveTimeout := Some 1200\<rparr>"


subsection \<open>Toggle completion\<close>

text \<open>
  \<^verbatim>\<open>onToggle(task)\<close> in its three parts. Each \<^verbatim>\<open>setTasks\<close> of it is a functional
  update: it maps over the list as it is when the update runs.
  \<^item> \<open>onToggle_begin\<close>: up to the \<^verbatim>\<open>await\<close> (clear the error, show "saving", flip
    the flag of every entry with the task's id);
  \<^item> \<open>onToggle_resolved\<close>: the rest of the \<^verbatim>\<open>try\<close> block, with the value the call
    resolved with;
  \<^item> \<open>onToggle_rejected\<close>: the \<^verbatim>\<open>catch\<close> block.
\<close>

definition onToggle_begin :: "'i task \<Rightarrow> 'i board \<Rightarrow> 'i board" where
  "onToggle_begin t0 s =
     s\<lparr>error := [], saveState := Saving,
       tasks := map (\<lambda>t. if id_t t = id_t t0 then t\<lparr>completed := \<not> completed t\<rparr> else t)
                  (tasks s)\<rparr>"

definition onToggle_resolved :: "'i task \<Rightarrow> 'i envelope \<Rightarrow> 'i board \<Rightarrow> 'i board" where
  "onToggle_resolved t0 res s =
     setSavedSoon
       (s\<lparr>tasks := map (\<lambda>t. if id_t t = id_t t0 then task res else t) (tasks s)\<rparr>)"

definition onToggle_rejected :: "'i task \<Rightarrow> 'i board \<Rightarrow> 'i board" where
  "onToggle_rejected t0 s =
     s\<lparr>saveState := Error, error := ''Could not update task. Please try again.'',
       tasks := map (\<lambda>t. if id_t t = id_t t0 then t\<lparr>completed := completed t0\<rparr> else t)
                  (tasks s)\<rparr>"

text \<open>The whole handler, when nothing else happens while the request is in flight.\<close>

definition onToggle :: "'i backend \<Rightarrow> 'i task \<Rightarrow> 'i board \<Rightarrow> 'i board" where
  "onToggle srv t0 s =
     (let s1 = onToggle_begin t0 s;
          (outcome, wire) = patchTaskCompletion (on_patch srv) (id_t t0) (\<not> completed t0) (sent s1);
          s2 = s1\<lparr>sent := wire\<rparr>
      in case outcome of
           Resolved res \<Rightarrow> onToggle_resolved t0 res s2
         | Rejected \<Rightarrow> onToggle_rejected t0 s2)"

subsection \<open>Delete\<close>

text \<open>
  \<^verbatim>\<open>onDelete(task)\<close>, in the same three parts. \<^verbatim>\<open>const prev = tasks\<close> is the list
  of the render the handler belongs to; the \<^verbatim>\<open>catch\<close> block writes it back whole
  (\<^verbatim>\<open>setTasks(prev)\<close>), so \<open>onDelete_rejected\<close> takes it as an argument.
\<close>

definition onDelete_begin :: "'i task \<Rightarrow> 'i board \<Rightarrow> 'i board" where
  "onDelete_begin t0 s =
     s\<lparr>error := [], saveState := Saving,
       tasks := filter (\<lambda>t. id_t t \<noteq> id_t t0) (tasks s)\<rparr>"

definition onDelete_resolved :: "'i board \<Rightarrow> 'i board" where
  "onDelete_resolved s = setSavedSoon s"

definition onDelete_rejected :: "'i task list \<Rightarrow> 'i board \<Rightarrow> 'i board" where
  "onDelete_rejected prev s =
     s\<lparr>saveState := Error, error := ''Could not delete task. Please try again.'',
       tasks := prev\<rparr>"

definition onDelete :: "'i backend \<Rightarrow> 'i task \<Rightarrow> 'i board \<Rightarrow> 'i board" where
  "onDelete srv t0 s =
     (let prev = tasks s;
          s1 = onDelete_begin t0 s;
          (outcome, wire) = deleteTask (on_delete srv) (id_t t0) (sent s1);
          s2 = s1\<lparr>sent := wire\<rparr>
      in case outcome of
           Resolved ok \<Rightarrow> onDelete_resolved s2
         | Rejected \<Rightarrow> onDelete_rejected prev s2)"

subsection \<open>Add\<close>

text \<open>
  \<^verbatim>\<open>String.prototype.trim\<close> removes white space and line terminators from both ends.
  A \<open>char\<close> is one of the code points 0 to 255; of these, the ones \<^verbatim>\<open>trim\<close> removes
  are TAB, LF, VT, FF, CR, SP and NBSP.
\<close>

definition isWhiteSpace :: "char \<Rightarrow> bool" where
  "isWhiteSpace c = (of_char c \<in> {9, 10, 11, 12, 13, 32, 160 :: nat})"

definition trim :: "string \<Rightarrow> string" where
  "trim str = rev (dropWhile isWhiteSpace (rev (dropWhile isWhiteSpace str)))"

text \<open>
  \<^verbatim>\<open>onAdd()\<close>: the validation (which returns before anything else happens), then
  the part up to the \<^verbatim>\<open>await\<close>, and the two ways the call can end.
\<close>

definition onAdd_begin :: "'i board \<Rightarrow> 'i board" where
  "onAdd_begin s = s\<lparr>error := [], saveState := Saving\<rparr>"

definition onAdd_resolved :: "'i envelope \<Rightarrow> 'i board \<Rightarrow> 'i board" where
  "onAdd_resolved res s =
     (setSavedSoon (s\<lparr>tasks := tasks s @ [task res], title_in := []\<rparr>))
       \<lparr>inputFocused := True\<rparr>"

definition onAdd_rejected :: "'i board \<Rightarrow> 'i board" where
  "onAdd_rejected s =
     s\<lparr>saveState := Error, error := ''Could not add task. Please try again.''\<rparr>"

definition onAdd :: "'i backend \<Rightarrow> 'i board \<Rightarrow> 'i board" where
  "onAdd srv s =
     (let trimmed = trim (title_in s)
      in if length trimmed < 3
         then s\<lparr>error := ''Task title must be at least 3 characters.''\<rparr>
         else
           (let s1 = onAdd_begin s;
                (outcome, wire) = createTask (on_post srv) trimmed (sent s1);
                s2 = s1\<lparr>sent := wire\<rparr>
            in case outcome of
                 Resolved res \<Rightarrow> onAdd_resolved res s2
               | Rejected \<Rightarrow> onAdd_rejected s2))"

subsection \<open>Load\<close>

text \<open>
  \<^verbatim>\<open>load()\<close>: the \<^verbatim>\<open>finally\<close> block clears the loading flag after either branch.
\<close>

definition load_begin :: "'i board \<Rightarrow> 'i board" where
  "load_begin s = s\<lparr>loading := True, error := []\<rparr>"

definition load_resolved :: "'i task list \<Rightarrow> 'i board \<Rightarrow> 'i board" where
  "load_resolved d s = (s\<lparr>tasks := d\<rparr>)\<lparr>loading := False\<rparr>"

definition load_rejected :: "'i board \<Rightarrow> 'i board" where
  "load_rejected s = (s\<lparr>error := ''Could not load tasks. Please refresh.''\<rparr>)\<lparr>loading := False\<rparr>"

definition load :: "'i backend \<Rightarrow> 'i board \<Rightarrow> 'i board" where
  "load srv s =
     (let s1 = load_begin s;
          (outcome, wire) = listTasks (on_get srv) (sent s1);
          s2 = s1\<lparr>sent := wire\<rparr>
      in case outcome of
           Resolved d \<Rightarrow> load_resolved d s2
         | Rejected \<Rightarrow> load_rejected s2)"

subsection \<open>Focus mode\<close>

text \<open>
  The switch calls \<^verbatim>\<open>setFocusMode\<close> with its new position; the rendered list is
  \<^verbatim>\<open>visibleTasks\<close>.
\<close>

definition setFocusMode :: "bool \<Rightarrow> 'i board \<Rightarrow> 'i board" where
  "setFocusMode v s = s\<lparr>focusMode := v\<rparr>"

definition visibleTasks :: "'i board \<Rightarrow> 'i task list" where
  "visibleTasks s =
     (if \<not> focusMode s then tasks s else filter (\<lambda>t. \<not> completed t) (tasks s))"

subsection \<open>Reachable states\<close>



section \<open>Derived progress\<close>

subsection \<open>Numbers\<close>

text \<open>
  A JavaScript number is an IEEE 754 binary64 value. The finite ones are rationals, and
  the quotient and the product of \<^verbatim>\<open>percent\<close> are the exact results rounded to the
  nearest binary64 value, ties to the even significand. \<open>fl\<close> is that rounding:
  \<open>bitlen\<close> is the length of a positive integer in bits, \<open>floor_log2 x\<close> the exponent
  of \<open>x > 0\<close>, and a value has 53 significant bits above the exponent \<open>- 1022\<close> and
  is a multiple of \<open>2 ^ - 1074\<close> below it. Overflow to Infinity is not modelled: the
  numbers of this program lie between 0 and 100, and the division by \<open>totalCount\<close>
  is guarded by \<^verbatim>\<open>totalCount === 0\<close>.
\<close>

function bitlen :: "int \<Rightarrow> nat" where
  "bitlen n = (if n \<le> 0 then 0 else Suc (bitlen (n div 2)))"
  by pat_completeness auto
termination
  by (relation "measure nat") auto

declare bitlen.simps [simp del]

definition pow2 :: "int \<Rightarrow> rat" where
  "pow2 e = (if 0 \<le> e then 2 ^ nat e else 1 / 2 ^ nat (- e))"

definition floor_log2 :: "rat \<Rightarrow> int" where
  "floor_log2 x =
     (let (a, b) = quotient_of x;
          d = int (bitlen a) - int (bitlen b)
      in if pow2 d \<le> x then d else d - 1)"

definition fl :: "rat \<Rightarrow> rat" where
  "fl x =
     (if x = 0 then 0
      else
        (let a = \<bar>x\<bar>;
             u = pow2 (max (floor_log2 a) (- 1022) - 52);
             m = a / u;
             n = \<lfloor>m\<rfloor>;
             r = m - of_int n;
             k = (if r < 1 / 2 then n
                  else if 1 / 2 < r then n + 1
                  else if even n then n else n + 1)
         in sgn x * of_int k * u))"

text \<open>
  The spacing of the binary64 values around \<open>x\<close>: the unit in the last place of a
  significand of 53 bits at the exponent of \<open>x\<close>, and \<open>2 ^ - 1074\<close> in the subnormal
  range.
\<close>

definition ulp :: "rat \<Rightarrow> rat" where
  "ulp x = pow2 (max (floor_log2 \<bar>x\<bar>) (- 1022) - 52)"

text \<open>\<^verbatim>\<open>x / y\<close> for \<open>y\<close> other than 0, and \<^verbatim>\<open>x * y\<close>.\<close>

definition fdiv :: "rat \<Rightarrow> rat \<Rightarrow> rat" where
  "fdiv x y = fl (x / y)"

definition fmul :: "rat \<Rightarrow> rat \<Rightarrow> rat" where
  "fmul x y = fl (x * y)"

text \<open>\<^verbatim>\<open>clamp(n, min, max)\<close> is \<^verbatim>\<open>Math.min(max, Math.max(min, n))\<close>.\<close>

definition clamp :: "rat \<Rightarrow> rat \<Rightarrow> rat \<Rightarrow> rat" where
  "clamp n lo hi = min hi (max lo n)"

text \<open>
  \<^verbatim>\<open>Math.round\<close> gives the nearest integer, the upper one of two that are equally
  near.
\<close>

definition Math_round :: "rat \<Rightarrow> int" where
  "Math_round x = \<lfloor>x + 1 / 2\<rfloor>"

text \<open>
  The template literal of \<^verbatim>\<open>formatPercent\<close> writes the integer in decimal digits
  (for an integer below \<open>10 ^ 21\<close>, as every rounded percentage is).
\<close>

fun digits :: "nat \<Rightarrow> string" where
  "digits n =
     (if n < 10 then [''0123456789'' ! n]
      else digits (n div 10) @ [''0123456789'' ! (n mod 10)])"

declare digits.simps [simp del]

definition toString :: "int \<Rightarrow> string" where
  "toString k = (if k < 0 then CHR ''-'' # digits (nat (- k)) else digits (nat k))"

definition formatPercent :: "rat \<Rightarrow> string" where
  "formatPercent n = toString (Math_round n) @ ''%''"

subsection \<open>Counts and percentage\<close>

definition completedCount :: "'i board \<Rightarrow> nat" where
  "completedCount s = length (filter completed (tasks s))"

definition totalCount :: "'i board \<Rightarrow> nat" where
  "totalCount s = length (tasks s)"

definition percent :: "'i board \<Rightarrow> rat" where
  "percent s =
     (if totalCount s = 0 then 0
      else clamp (fmul (fdiv (of_nat (completedCount s)) (of_nat (totalCount s))) 100) 0 100)"

definition allDone :: "'i board \<Rightarrow> bool" where
  "allDone s = (0 < totalCount s \<and> completedCount s = totalCount s)"

text \<open>
  The progress line of the page: \<^verbatim>\<open>{formatPercent(percent)} ({completedCount}/{totalCount})\<close>.
\<close>

definition progress_text :: "'i board \<Rightarrow> string" where
  "progress_text s =
     formatPercent (percent s) @ '' ('' @ toString (int (completedCount s)) @ ''/''
       @ toString (int (totalCount s)) @ '')''"

text \<open>
  The percentage in the words of the specification,
  \<^verbatim>\<open>round(clamp(completed/total*100, 0, 100))\<close> with \<^verbatim>\<open>percent = 0\<close> when
  \<^verbatim>\<open>total = 0\<close>, read in exact arithmetic: the quotient and the product are those of
  the rationals, and a half is rounded upward.
\<close>

definition percent_spec :: "nat \<Rightarrow> nat \<Rightarrow> int" where
  "percent_spec c t =
     (if t = 0 then 0
      else \<lfloor>min 100 (max 0 (of_nat c / of_nat t * 100 :: rat)) + 1 / 2\<rfloor>)"

section \<open>Examples used below\<close>

definition milk :: "nat task" where
  "milk = \<lparr>id_t = 1, title = ''Buy milk'', completed = False\<rparr>"

definition dog :: "nat task" where
  "dog = \<lparr>id_t = 2, title = ''Walk dog'', completed = True\<rparr>"

text \<open>A backend that cannot be reached: every request is rejected.\<close>

definition offline :: "nat backend" where
  "offline =
     \<lparr>on_get = Rejected, on_post = (\<lambda>ttl. Rejected), on_patch = (\<lambda>i c. Rejected),
      on_delete = (\<lambda>i. Rejected)\<rparr>"

text \<open>
  A backend that answers as the interface table of the specification says: the list,
  the new Task under \<^verbatim>\<open>task\<close> (with id 3), the patched Task under \<^verbatim>\<open>task\<close> (an
  error for an id it does not have), and no body for a delete.
\<close>

definition online :: "nat backend" where
  "online =
     \<lparr>on_get = Resolved \<lparr>data = [milk, dog]\<rparr>,
      on_post = (\<lambda>ttl. Resolved \<lparr>data = \<lparr>task = \<lparr>id_t = 3, title = ttl, completed = False\<rparr>\<rparr>\<rparr>),
      on_patch = (\<lambda>i c. if i = 1 then Resolved \<lparr>data = \<lparr>task = milk\<lparr>completed := c\<rparr>\<rparr>\<rparr>
                       else if i = 2 then Resolved \<lparr>data = \<lparr>task = dog\<lparr>completed := c\<rparr>\<rparr>\<rparr>
                       else Rejected),
      on_delete = (\<lambda>i. Resolved \<lparr>data = ()\<rparr>)\<rparr>"

definition two_tasks :: "nat board" where
  "two_tasks = initial\<lparr>tasks := [milk, dog], loading := False\<rparr>"

text \<open>A board of eight tasks, one of them completed.\<close>

definition eight :: "nat board" where
  "eight = initial\<lparr>tasks := dog # replicate 7 milk, loading := False\<rparr>"

text \<open>A board of forty tasks, twenty-three of them completed.\<close>

definition forty :: "nat board" where
  "forty = initial\<lparr>tasks := replicate 23 dog @ replicate 17 milk, loading := False\<rparr>"

section \<open>The handlers, by the outcome of their request\<close>

text \<open>
  Each handler sends exactly one request and then runs one of its two continuations
  on the state its first part left.
\<close>

lemma onToggle_unfold:
  "onToggle srv t0 s =
     (case on_patch srv (id_t t0) (\<not> completed t0) of
        Rejected \<Rightarrow>
          onToggle_rejected t0
            ((onToggle_begin t0 s)\<lparr>sent := sent s @ [PATCH_task (id_t t0) (\<not> completed t0)]\<rparr>)
      | Resolved res \<Rightarrow>
          onToggle_resolved t0 (data res)
            ((onToggle_begin t0 s)\<lparr>sent := sent s @ [PATCH_task (id_t t0) (\<not> completed t0)]\<rparr>))"
  by (simp add: onToggle_def patchTaskCompletion_def onToggle_begin_def Let_def
      split: settled.splits)

lemma onDelete_unfold:
  "onDelete srv t0 s =
     (case on_delete srv (id_t t0) of
        Rejected \<Rightarrow>
          onDelete_rejected (tasks s)
            ((onDelete_begin t0 s)\<lparr>sent := sent s @ [DELETE_task (id_t t0)]\<rparr>)
      | Resolved res \<Rightarrow>
          onDelete_resolved
            ((onDelete_begin t0 s)\<lparr>sent := sent s @ [DELETE_task (id_t t0)]\<rparr>))"
  by (simp add: onDelete_def deleteTask_def onDelete_begin_def Let_def split: settled.splits)

lemma onAdd_unfold:
  "onAdd srv s =
     (if length (trim (title_in s)) < 3
      then s\<lparr>error := ''Task title must be at least 3 characters.''\<rparr>
      else case on_post srv (trim (title_in s)) of
             Rejected \<Rightarrow>
               onAdd_rejected ((onAdd_begin s)\<lparr>sent := sent s @ [POST_tasks (trim (title_in s))]\<rparr>)
           | Resolved res \<Rightarrow>
               onAdd_resolved (data res)
                 ((onAdd_begin s)\<lparr>sent := sent s @ [POST_tasks (trim (title_in s))]\<rparr>))"
  by (simp add: onAdd_def createTask_def onAdd_begin_def Let_def split: settled.splits)

lemma load_unfold:
  "load srv s =
     (case on_get srv of
        Rejected \<Rightarrow> load_rejected ((load_begin s)\<lparr>sent := sent s @ [GET_tasks]\<rparr>)
      | Resolved res \<Rightarrow> load_resolved (data res) ((load_begin s)\<lparr>sent := sent s @ [GET_tasks]\<rparr>))"
  by (simp add: load_def listTasks_def load_begin_def Let_def split: settled.splits)




lemma trim_ab: "trim ''  ab  '' = ''ab''"
  by (simp add: trim_def isWhiteSpace_def)

lemma trim_cat: "trim '' Feed cat '' = ''Feed cat''"
  by (simp add: trim_def isWhiteSpace_def)

section \<open>Rollback of a failed toggle\<close>

text \<open>
  C1. Take any task list and any task \<open>t0\<close> in it, at position \<open>i\<close>. If the request of
  the toggle is rejected, then once the failure handler has run the entry at \<open>i\<close> has
  the \<open>completed\<close> flag it had before the toggle began; indeed the entry is \<open>t0\<close>
  again, the list has its old length, the indicator shows the error state and the
  update message is set.
\<close>

theorem onToggle_failure_restores_flag:
  assumes "i < length (tasks s)" and "tasks s ! i = t0"
    and "on_patch srv (id_t t0) (\<not> completed t0) = Rejected"
  shows "completed (tasks (onToggle srv t0 s) ! i) = completed (tasks s ! i)
       \<and> tasks (onToggle srv t0 s) ! i = tasks s ! i
       \<and> length (tasks (onToggle srv t0 s)) = length (tasks s)
       \<and> saveState (onToggle srv t0 s) = Error
       \<and> error (onToggle srv t0 s) = ''Could not update task. Please try again.''"
  using assms
  by (simp add: onToggle_unfold onToggle_begin_def onToggle_rejected_def)

theorem onToggle_failure_witness:
  "tasks (onToggle offline milk two_tasks) ! 0 = milk
   \<and> completed (tasks (onToggle offline milk two_tasks) ! 0) = False
   \<and> completed (tasks (onToggle_begin milk two_tasks) ! 0) = True
   \<and> saveState (onToggle offline milk two_tasks) = Error"
  using onToggle_failure_restores_flag [of 0 two_tasks milk offline]
  by (simp add: two_tasks_def initial_def milk_def dog_def offline_def onToggle_begin_def)

text \<open>
  The revert does not depend on what happened while the request was in flight: in
  whatever list it finds, every entry with the task's id gets the flag the task had
  when the toggle began.
\<close>

lemma onToggle_rejected_sets_flag:
  "t \<in> set (tasks (onToggle_rejected t0 s)) \<Longrightarrow> id_t t = id_t t0 \<Longrightarrow>
     completed t = completed t0"
  by (auto simp add: onToggle_rejected_def)

text \<open>
  When the ids of the list are pairwise distinct, the failed toggle gives back the
  whole list.
\<close>

lemma onToggle_failure_restores_list:
  assumes "t0 \<in> set (tasks s)" and "distinct (map id_t (tasks s))"
    and "on_patch srv (id_t t0) (\<not> completed t0) = Rejected"
  shows "tasks (onToggle srv t0 s) = tasks s"
proof -
  let ?flip = "\<lambda>t. if id_t t = id_t t0 then t\<lparr>completed := \<not> completed t\<rparr> else t"
  let ?undo = "\<lambda>t. if id_t t = id_t t0 then t\<lparr>completed := completed t0\<rparr> else t"
  have "map (?undo \<circ> ?flip) (tasks s) = tasks s"
  proof (rule map_idI)
    fix t assume "t \<in> set (tasks s)"
    with assms(1,2) have "id_t t = id_t t0 \<Longrightarrow> t = t0"
      by (meson distinct_map inj_onD)
    then show "(?undo \<circ> ?flip) t = t"
      by auto
  qed
  then show ?thesis using assms(3)
    by (simp add: onToggle_unfold onToggle_begin_def onToggle_rejected_def)
qed

section \<open>Rollback of a failed delete\<close>

text \<open>
  C2. If the request of the delete is rejected, then once the failure handler has run
  the task list is the list as it was before the optimistic removal, entry for entry
  and in the same order: the handler writes its snapshot \<open>prev\<close> back, whatever the
  list has become meanwhile. The indicator shows the error state and the delete
  message is set.
\<close>

theorem onDelete_failure_restores_list:
  assumes "on_delete srv (id_t t0) = Rejected"
  shows "tasks (onDelete srv t0 s) = tasks s
       \<and> tasks (onDelete_rejected prev s') = prev
       \<and> saveState (onDelete srv t0 s) = Error
       \<and> error (onDelete srv t0 s) = ''Could not delete task. Please try again.''"
  using assms by (simp add: onDelete_unfold onDelete_rejected_def)

theorem onDelete_failure_witness:
  "tasks (onDelete offline milk two_tasks) = [milk, dog]
   \<and> tasks (onDelete_begin milk two_tasks) = [dog]
   \<and> saveState (onDelete offline milk two_tasks) = Error"
  using onDelete_failure_restores_list [of offline milk two_tasks "[]" two_tasks]
  by (simp add: offline_def two_tasks_def initial_def onDelete_begin_def milk_def dog_def)

section \<open>What the API client resolves with\<close>

text \<open>
  C3 as stated fails: \<^verbatim>\<open>createTask\<close> and \<^verbatim>\<open>patchTaskCompletion\<close> do not resolve
  with the Task itself. The backend answers a POST or a PATCH with
  \<^verbatim>\<open>{ task: Task }\<close>, both operations return \<^verbatim>\<open>res.data\<close> as it is, and so they
  resolve with the wrapper: for the title \<^verbatim>\<open>"Walk dog"\<close> and a backend that creates
  the Task with id 3, \<^verbatim>\<open>createTask\<close> resolves with
  \<^verbatim>\<open>{ task: { id: 3, title: "Walk dog", completed: false } }\<close>, which is not the Task.
\<close>

theorem createTask_resolves_with_wrapper:
  "fst (createTask
          (\<lambda>ttl. Resolved \<lparr>data = Wrapped \<lparr>task = \<lparr>id_t = 3 :: nat, title = ttl, completed = False\<rparr>\<rparr>\<rparr>)
          ''Walk dog'' [])
     = Resolved (Wrapped \<lparr>task = \<lparr>id_t = 3, title = ''Walk dog'', completed = False\<rparr>\<rparr>)
   \<and> fst (createTask
          (\<lambda>ttl. Resolved \<lparr>data = Wrapped \<lparr>task = \<lparr>id_t = 3 :: nat, title = ttl, completed = False\<rparr>\<rparr>\<rparr>)
          ''Walk dog'' [])
     \<noteq> Resolved (Bare \<lparr>id_t = 3, title = ''Walk dog'', completed = False\<rparr>)
   \<and> fst (patchTaskCompletion
          (\<lambda>i c. Resolved \<lparr>data = Wrapped \<lparr>task = \<lparr>id_t = i, title = ''Buy milk'', completed = c\<rparr>\<rparr>\<rparr>)
          (1 :: nat) True [])
     \<noteq> Resolved (Bare \<lparr>id_t = 1, title = ''Buy milk'', completed = True\<rparr>)"
  by (simp add: createTask_def patchTaskCompletion_def)

text \<open>
  C3, amended. For every title and every id, \<^verbatim>\<open>createTask\<close> resolves with the body
  of the response to its POST and \<^verbatim>\<open>patchTaskCompletion\<close> with the body of the
  response to its PATCH, unchanged, whatever that body is. For this backend the body
  is the wrapper \<^verbatim>\<open>{ task: Task }\<close>; the Task (with the id the server gave it) is its
  \<^verbatim>\<open>task\<close> field, which is what \<^verbatim>\<open>onAdd\<close> appends to the list and what
  \<^verbatim>\<open>onToggle\<close> puts in the place of the toggled entry.
\<close>

theorem api_resolves_with_body:
  "(answer ttl = Resolved res \<longrightarrow> fst (createTask answer ttl wire) = Resolved (data res))
   \<and> (answer' i c = Resolved res' \<longrightarrow>
        fst (patchTaskCompletion answer' i c wire) = Resolved (data res'))
   \<and> (3 \<le> length (trim (title_in s)) \<and> on_post srv (trim (title_in s)) = Resolved r \<longrightarrow>
        fst (createTask (on_post srv) (trim (title_in s)) (sent s)) = Resolved (data r)
      \<and> tasks (onAdd srv s) = tasks s @ [task (data r)])
   \<and> (on_patch srv (id_t t0) (\<not> completed t0) = Resolved r' \<longrightarrow>
        fst (patchTaskCompletion (on_patch srv) (id_t t0) (\<not> completed t0) (sent s))
          = Resolved (data r')
      \<and> tasks (onToggle srv t0 s)
          = map (\<lambda>t. if id_t t = id_t t0 then task (data r') else t) (tasks s))"
  by (auto simp add: createTask_def patchTaskCompletion_def onAdd_unfold onAdd_resolved_def
      onAdd_begin_def setSavedSoon_def onToggle_unfold onToggle_resolved_def onToggle_begin_def)

theorem api_resolves_with_body_witness:
  "fst (createTask (on_post online) ''Feed cat'' ([] :: nat request list))
     = Resolved \<lparr>task = \<lparr>id_t = 3, title = ''Feed cat'', completed = False\<rparr>\<rparr>
   \<and> fst (patchTaskCompletion (on_patch online) 1 True ([] :: nat request list))
     = Resolved \<lparr>task = \<lparr>id_t = 1, title = ''Buy milk'', completed = True\<rparr>\<rparr>
   \<and> tasks (onAdd online (two_tasks\<lparr>title_in := '' Feed cat ''\<rparr>))
     = [milk, dog, \<lparr>id_t = 3, title = ''Feed cat'', completed = False\<rparr>]
   \<and> tasks (onToggle online milk two_tasks)
     = [\<lparr>id_t = 1, title = ''Buy milk'', completed = True\<rparr>, dog]"
  using api_resolves_with_body [of "on_post online" "''Feed cat''"
      "\<lparr>data = \<lparr>task = \<lparr>id_t = 3, title = ''Feed cat'', completed = False\<rparr>\<rparr>\<rparr>"
      "[]" "on_patch online" 1 True
      "\<lparr>data = \<lparr>task = \<lparr>id_t = 1, title = ''Buy milk'', completed = True\<rparr>\<rparr>\<rparr>"
      "two_tasks\<lparr>title_in := '' Feed cat ''\<rparr>" online
      "\<lparr>data = \<lparr>task = \<lparr>id_t = 3, title = ''Feed cat'', completed = False\<rparr>\<rparr>\<rparr>"
      milk
      "\<lparr>data = \<lparr>task = \<lparr>id_t = 1, title = ''Buy milk'', completed = True\<rparr>\<rparr>\<rparr>"]
  by (simp add: online_def trim_cat two_tasks_def initial_def milk_def dog_def createTask_def
      patchTaskCompletion_def onAdd_unfold onAdd_resolved_def onAdd_begin_def setSavedSoon_def
      onToggle_unfold onToggle_resolved_def onToggle_begin_def)

section \<open>The save indicator\<close>






section \<open>Progress\<close>

lemma clamp_bounds: "lo \<le> hi \<Longrightarrow> lo \<le> clamp n lo hi \<and> clamp n lo hi \<le> hi"
  by (simp add: clamp_def)

lemma percent_bounds: "0 \<le> percent s \<and> percent s \<le> 100"
  using clamp_bounds [of 0 100] by (simp add: percent_def)

lemma Math_round_bounds:
  assumes "0 \<le> x" and "x \<le> 100"
  shows "0 \<le> Math_round x \<and> Math_round x \<le> 100"
proof -
  have "0 \<le> \<lfloor>x + 1 / 2\<rfloor>" using assms(1) by simp
  moreover have "x + 1 / 2 < of_int (101 :: int)" using assms(2) by simp
  then have "\<lfloor>x + 1 / 2\<rfloor> < 101" by (simp only: floor_less_iff)
  ultimately show ?thesis by (simp add: Math_round_def)
qed

lemma formatPercent_zero: "formatPercent 0 = ''0%''"
  by code_simp

subsection \<open>The rounding of a binary64 operation\<close>

text \<open>
  \<open>floor_log2\<close> is the exponent, \<open>fl x\<close> is a multiple of the spacing \<open>ulp x\<close>
  nearest to \<open>x\<close>, and of two nearest multiples the even one.
\<close>

lemma pow2_powi: "pow2 e = 2 powi e"
  by (simp add: pow2_def power_int_def field_simps)

lemma pow2_pos: "0 < pow2 e"
  by (simp add: pow2_powi)

lemma pow2_add: "pow2 (a + b) = pow2 a * pow2 b"
  by (simp only: pow2_powi) (rule power_int_add, simp)

lemma pow2_Suc: "pow2 (e + 1) = 2 * pow2 e"
  by (simp add: pow2_add) (simp add: pow2_def)

lemma pow2_nat: "pow2 (int n) = 2 ^ n"
  by (simp add: pow2_def)

lemma bitlen_bounds: "0 < n \<Longrightarrow> 2 ^ (bitlen n - 1) \<le> n \<and> n < 2 ^ bitlen n"
proof (induction n rule: bitlen.induct)
  case (1 n)
  show ?case
  proof (cases "n div 2 = 0")
    case True
    with "1.prems" have "n = 1" by presburger
    then show ?thesis by (simp add: bitlen.simps)
  next
    case False
    with "1.prems" have pos: "0 < n div 2" by presburger
    from "1.IH" [OF _ pos] "1.prems"
    have ih: "2 ^ (bitlen (n div 2) - 1) \<le> n div 2" "n div 2 < 2 ^ bitlen (n div 2)"
      by auto
    have len: "bitlen n = Suc (bitlen (n div 2))"
      using "1.prems" by (subst bitlen.simps) simp
    have b1: "0 < bitlen (n div 2)"
      using pos by (subst bitlen.simps) simp
    then have "(2::int) ^ bitlen (n div 2) = 2 * 2 ^ (bitlen (n div 2) - 1)"
      by (cases "bitlen (n div 2)") simp_all
    with ih show ?thesis unfolding len by (simp) presburger+
  qed
qed

lemma bitlen_pos: "0 < n \<Longrightarrow> 0 < bitlen n"
  by (subst bitlen.simps) simp

lemma bitlen_rat:
  assumes "0 < n"
  shows "pow2 (int (bitlen n) - 1) \<le> of_int n" and "of_int n < pow2 (int (bitlen n))"
proof -
  from bitlen_bounds [OF assms]
  have lo: "2 ^ (bitlen n - 1) \<le> n" and hi: "n < 2 ^ bitlen n" by auto
  have e: "int (bitlen n) - 1 = int (bitlen n - 1)"
    using bitlen_pos [OF assms] by simp
  have "pow2 (int (bitlen n) - 1) = pow2 (int (bitlen n - 1))"
    by (simp only: e)
  also have "\<dots> = of_int (2 ^ (bitlen n - 1))"
    by (simp only: pow2_nat) simp
  also have "\<dots> \<le> of_int n" using lo by (simp only: of_int_le_iff)
  finally show "pow2 (int (bitlen n) - 1) \<le> of_int n" .
  have "(of_int n :: rat) < of_int (2 ^ bitlen n)" using hi by (simp only: of_int_less_iff)
  then show "of_int n < pow2 (int (bitlen n))" by (simp add: pow2_nat)
qed

lemma floor_log2_correct:
  assumes "0 < x"
  shows "pow2 (floor_log2 x) \<le> x \<and> x < pow2 (floor_log2 x + 1)"
proof -
  obtain a b where q: "quotient_of x = (a, b)" by (cases "quotient_of x")
  then have x: "x = of_int a / of_int b" by (rule quotient_of_div)
  from q have b: "0 < b" by (rule quotient_of_denom_pos)
  with x assms have a: "0 < a" by (simp add: zero_less_divide_iff)
  define d where "d = int (bitlen a) - int (bitlen b)"
  have fl: "floor_log2 x = (if pow2 d \<le> x then d else d - 1)"
    by (simp add: floor_log2_def q d_def Let_def)
  have bpos: "(0::rat) < of_int b" using b by simp
  have lo: "pow2 (d - 1) \<le> x"
  proof -
    have "pow2 (d - 1) * of_int b \<le> pow2 (d - 1) * pow2 (int (bitlen b))"
      using bitlen_rat(2) [OF b] pow2_pos [of "d - 1"] by (simp add: less_imp_le)
    also have "\<dots> = pow2 (int (bitlen a) - 1)"
      by (simp only: pow2_add [symmetric] d_def) simp
    also have "\<dots> \<le> of_int a" by (rule bitlen_rat(1) [OF a])
    finally show ?thesis using bpos by (simp add: x pos_le_divide_eq)
  qed
  have hi: "x < pow2 (d + 1)"
  proof -
    have "of_int a < pow2 (int (bitlen a))" by (rule bitlen_rat(2) [OF a])
    also have "\<dots> = pow2 (d + 1) * pow2 (int (bitlen b) - 1)"
      by (simp only: pow2_add [symmetric] d_def) simp
    also have "\<dots> \<le> pow2 (d + 1) * of_int b"
      using bitlen_rat(1) [OF b] pow2_pos [of "d + 1"] by simp
    finally show ?thesis using bpos by (simp add: x pos_divide_less_eq)
  qed
  show ?thesis
  proof (cases "pow2 d \<le> x")
    case True
    with hi fl show ?thesis by simp
  next
    case False
    with lo fl show ?thesis by simp
  qed
qed

lemma ulp_pos: "0 < ulp x"
  by (simp add: ulp_def pow2_pos)

lemma fl_zero: "fl 0 = 0"
  by (simp add: fl_def)

lemma fl_nearest:
  assumes "x \<noteq> 0"
  shows "fl x / ulp x \<in> \<int>"
    and "\<bar>fl x - x\<bar> \<le> ulp x / 2"
    and "\<bar>fl x - x\<bar> = ulp x / 2 \<longrightarrow> even \<lfloor>fl x / ulp x\<rfloor>"
proof -
  define u where "u = ulp x"
  define m where "m = \<bar>x\<bar> / u"
  define n where "n = \<lfloor>m\<rfloor>"
  define r where "r = m - of_int n"
  define k where "k = (if r < 1 / 2 then n else if 1 / 2 < r then n + 1
                       else if even n then n else n + 1)"
  have u: "0 < u" by (simp add: u_def ulp_pos)
  have flx: "fl x = sgn x * of_int k * u"
    using assms
    by (simp add: fl_def Let_def k_def r_def n_def m_def u_def ulp_def)
  have r: "0 \<le> r" "r < 1"
    by (simp_all add: r_def n_def) linarith+
  have near: "\<bar>of_int k - m\<bar> \<le> 1 / 2"
    using r by (auto simp add: k_def r_def abs_if)
  have tie: "\<bar>of_int k - m\<bar> = 1 / 2 \<Longrightarrow> even k"
    using r by (auto simp add: k_def r_def abs_if split: if_splits)
  have sg: "sgn x = 1 \<or> sgn x = - 1"
    using assms by (auto simp add: sgn_if)
  have quot: "fl x / u = sgn x * of_int k"
    using u by (simp add: flx)
  have xm: "x = sgn x * m * u"
    using u by (simp add: m_def mult_sgn_abs)
  have "fl x - x = sgn x * u * (of_int k - m)"
    by (subst (2) xm) (simp add: flx algebra_simps)
  then have err: "\<bar>fl x - x\<bar> = u * \<bar>of_int k - m\<bar>"
    using sg u by (auto simp add: abs_mult)
  show "fl x / ulp x \<in> \<int>"
    using sg quot by (auto simp add: u_def)
  show "\<bar>fl x - x\<bar> \<le> ulp x / 2"
    using near u err by (simp add: u_def [symmetric])
  show "\<bar>fl x - x\<bar> = ulp x / 2 \<longrightarrow> even \<lfloor>fl x / ulp x\<rfloor>"
  proof
    assume "\<bar>fl x - x\<bar> = ulp x / 2"
    with err u have "\<bar>of_int k - m\<bar> = 1 / 2" by (simp add: u_def [symmetric])
    then have "even k" by (rule tie)
    moreover have "\<lfloor>fl x / ulp x\<rfloor> = k \<or> \<lfloor>fl x / ulp x\<rfloor> = - k"
      using sg quot by (auto simp add: u_def [symmetric])
    ultimately show "even \<lfloor>fl x / ulp x\<rfloor>" by auto
  qed
qed

lemma pow2_mono: "a \<le> b \<Longrightarrow> pow2 a \<le> pow2 b"
  by (simp only: pow2_powi) (rule power_int_increasing, simp_all)

lemma ulp_bound:
  assumes "x \<noteq> 0"
  shows "ulp x \<le> \<bar>x\<bar> * pow2 (- 52) + pow2 (- 1074)"
proof (cases "- 1022 \<le> floor_log2 \<bar>x\<bar>")
  case True
  then have "ulp x = pow2 (floor_log2 \<bar>x\<bar> + (- 52))"
    by (simp add: ulp_def max_def)
  also have "\<dots> = pow2 (floor_log2 \<bar>x\<bar>) * pow2 (- 52)"
    by (rule pow2_add)
  also have "\<dots> \<le> \<bar>x\<bar> * pow2 (- 52)"
    using floor_log2_correct [of "\<bar>x\<bar>"] assms pow2_pos [of "- 52"] by simp
  finally show ?thesis using pow2_pos [of "- 1074"] by simp
next
  case False
  then have "ulp x = pow2 (- 1074)"
    by (simp add: ulp_def max_def)
  then show ?thesis using pow2_pos [of "- 52"] by simp
qed

lemma fl_error: "\<bar>fl x - x\<bar> \<le> (\<bar>x\<bar> + 1) * pow2 (- 53)"
proof (cases "x = 0")
  case True
  then show ?thesis using pow2_pos [of "- 53"] by (simp add: fl_zero)
next
  case False
  have half: "pow2 (- 52) = 2 * pow2 (- 53)"
    using pow2_Suc [of "- 53"] by simp
  have "pow2 (- 1074) \<le> pow2 (- 52)" by (rule pow2_mono) simp
  with ulp_bound [OF False] have "ulp x \<le> \<bar>x\<bar> * pow2 (- 52) + pow2 (- 52)" by simp
  also have "\<dots> = 2 * ((\<bar>x\<bar> + 1) * pow2 (- 53))"
    by (simp add: half algebra_simps)
  finally show ?thesis using fl_nearest(2) [OF False] by simp
qed

lemma pow2_m53: "pow2 (- 53) = 1 / 2 ^ 53"
  by (simp add: pow2_def)

lemma percent_close:
  assumes "totalCount s \<noteq> 0"
  shows "\<bar>percent s - of_nat (completedCount s) / of_nat (totalCount s) * 100\<bar> \<le> 302 / 2 ^ 53"
proof -
  define E :: rat where "E = of_nat (completedCount s) / of_nat (totalCount s)"
  define q where "q = fl E"
  define p where "p = fl (q * 100)"
  define eps :: rat where "eps = pow2 (- 53)"
  have eps: "0 < eps" "eps \<le> 1 / 1000"
    by (simp_all add: eps_def pow2_pos) (simp add: pow2_def)
  have c: "completedCount s \<le> totalCount s"
    by (simp add: completedCount_def totalCount_def)
  have E: "0 \<le> E" "E \<le> 1"
    using assms c by (simp_all add: E_def divide_le_eq_1)
  have "\<bar>q - E\<bar> \<le> (\<bar>E\<bar> + 1) * eps"
    unfolding q_def eps_def by (rule fl_error)
  also have "\<dots> \<le> 2 * eps" using E eps by (simp add: mult_right_mono)
  finally have qE: "\<bar>q - E\<bar> \<le> 2 * eps" .
  then have q: "\<bar>q * 100\<bar> \<le> 100 + 200 * eps" using E by (simp add: abs_le_iff) 
  have "\<bar>p - q * 100\<bar> \<le> (\<bar>q * 100\<bar> + 1) * eps"
    unfolding p_def eps_def by (rule fl_error)
  also have "\<dots> \<le> (100 + 200 * eps + 1) * eps"
    using q eps by (intro mult_right_mono) simp_all
  also have "\<dots> \<le> 102 * eps"
  proof -
    have "200 * eps * eps \<le> 200 * (1 / 1000) * eps"
      using eps by (intro mult_right_mono mult_left_mono) simp_all
    then show ?thesis using eps by (simp add: algebra_simps)
  qed
  finally have pq: "\<bar>p - q * 100\<bar> \<le> 102 * eps" .
  hence pE: "\<bar>p - E * 100\<bar> \<le> 302 * eps" using qE by (simp add: abs_le_iff)
  have "percent s = clamp p 0 100"
    using assms by (simp add: percent_def p_def q_def E_def fmul_def fdiv_def)
  moreover have "\<bar>clamp p 0 100 - E * 100\<bar> \<le> \<bar>p - E * 100\<bar>"
    using E by (simp add: clamp_def min_def max_def abs_if)
  ultimately show ?thesis using pE by (simp add: E_def eps_def pow2_m53)
qed

lemma Math_round_nearest:
  "of_int (Math_round x) \<le> x + 1 / 2 \<and> x + 1 / 2 < of_int (Math_round x) + 1"
  by (simp add: Math_round_def) linarith

lemma Math_round_close:
  assumes "\<bar>x - y\<bar> < 1"
  shows "\<bar>Math_round x - \<lfloor>y + 1 / 2\<rfloor>\<bar> \<le> 1"
proof -
  define a where "a = \<lfloor>x + 1 / 2\<rfloor>"
  define b where "b = \<lfloor>y + 1 / 2\<rfloor>"
  have a: "of_int a \<le> x + 1 / 2" "x + 1 / 2 < of_int a + 1"
    by (simp_all add: a_def) linarith
  have b: "of_int b \<le> y + 1 / 2" "y + 1 / 2 < of_int b + 1"
    by (simp_all add: b_def) linarith
  from a b assms have "(of_int (a - b) :: rat) < of_int 2" "(of_int (b - a) :: rat) < of_int 2"
    by (simp_all add: abs_less_iff)
  then have "a - b < 2" "b - a < 2"
    by (simp_all only: of_int_less_iff)
  then show ?thesis by (simp add: Math_round_def a_def b_def)
qed

lemma shown_close:
  "\<bar>Math_round (percent s) - percent_spec (completedCount s) (totalCount s)\<bar> \<le> 1"
proof (cases "totalCount s = 0")
  case True
  then show ?thesis by (simp add: percent_def percent_spec_def Math_round_def)
next
  case False
  define R :: rat where "R = of_nat (completedCount s) / of_nat (totalCount s)"
  have c: "completedCount s \<le> totalCount s"
    by (simp add: completedCount_def totalCount_def)
  have R: "0 \<le> R" "R \<le> 1"
    using False c by (simp_all add: R_def divide_le_eq_1)
  have "(302 :: rat) / 2 ^ 53 < 1" by simp
  with percent_close [OF False] have "\<bar>percent s - R * 100\<bar> < 1"
    unfolding R_def by linarith
  then have "\<bar>Math_round (percent s) - \<lfloor>R * 100 + 1 / 2\<rfloor>\<bar> \<le> 1"
    by (rule Math_round_close)
  moreover have "min 100 (max 0 (R * 100)) = R * 100"
    using R by (simp add: min_def max_def)
  then have "percent_spec (completedCount s) (totalCount s) = \<lfloor>R * 100 + 1 / 2\<rfloor>"
    using False unfolding percent_spec_def R_def by simp
  ultimately show ?thesis by simp
qed

lemma ulp_exponent:
  assumes "x \<noteq> 0"
  shows "\<exists>e. 2 powi e \<le> \<bar>x\<bar> \<and> \<bar>x\<bar> < 2 powi (e + 1) \<and> ulp x = 2 powi (max e (- 1022) - 52)"
  using floor_log2_correct [of "\<bar>x\<bar>"] assms
  by (intro exI [of _ "floor_log2 \<bar>x\<bar>"]) (simp add: ulp_def pow2_powi)

lemma clamp_cases:
  assumes "lo \<le> hi"
  shows "(n < lo \<longrightarrow> clamp n lo hi = lo) \<and> (hi < n \<longrightarrow> clamp n lo hi = hi)
       \<and> (lo \<le> n \<and> n \<le> hi \<longrightarrow> clamp n lo hi = n)"
  using assms by (auto simp add: clamp_def min_def max_def)

subsection \<open>The percentage shown\<close>

text \<open>
  C5 as stated fails when its formula is read in exact arithmetic. With 23 of 40 tasks
  completed the exact percentage is 57.5, which rounds to 58. The code divides and
  multiplies in binary64: the product is 57.49999999999999, the binary64 value just
  below 57.5, and the page shows 57%.
\<close>

theorem percent_spec_counterexample:
  "completedCount forty = 23 \<and> totalCount forty = 40
   \<and> percent_spec (completedCount forty) (totalCount forty) = 58
   \<and> percent forty = 8092405580431359 / 140737488355328
   \<and> Math_round (percent forty) = 57
   \<and> formatPercent (percent forty) = ''57%''
   \<and> formatPercent (percent forty)
        \<noteq> toString (percent_spec (completedCount forty) (totalCount forty)) @ ''%''"
  by code_simp

text \<open>
  C5, amended. For every task list the completed count is at most the total count, and
  for the empty list the percentage is 0 and \<^verbatim>\<open>0%\<close> is shown. Otherwise the
  percentage shown is \<^verbatim>\<open>Math.round\<close> of \<^verbatim>\<open>clamp(p, 0, 100)\<close>, where \<open>p\<close> is the
  binary64 product by 100 of the binary64 quotient of the two counts, and not the exact
  percentage:
  \<^item> \<^verbatim>\<open>Math.round\<close> gives the nearest integer, the upper one of two that are equally
    near;
  \<^item> the quotient and the product are the exact results rounded by \<open>fl\<close> to a nearest
    multiple of the spacing \<open>ulp\<close> of the binary64 values at the exponent of the
    result, to the even multiple when two are equally near;
  \<^item> \<^verbatim>\<open>clamp\<close> gives the nearer bound for a number outside the bounds and the number
    itself inside them;
  \<^item> the percentage lies between 0 and 100 and within \<open>302 / 2 ^ 53\<close> of the exact
    percentage, and the integer shown lies between 0 and 100 and differs by at most 1
    from the exact percentage rounded.
\<close>

theorem percent_progress:
  "completedCount s \<le> totalCount s
   \<and> (totalCount s = 0 \<longrightarrow> percent s = 0 \<and> formatPercent (percent s) = ''0%'')
   \<and> (totalCount s \<noteq> 0 \<longrightarrow>
        formatPercent (percent s)
          = toString (Math_round
              (clamp (fmul (fdiv (of_nat (completedCount s)) (of_nat (totalCount s))) 100) 0 100))
            @ ''%'')
   \<and> 0 \<le> percent s \<and> percent s \<le> 100
   \<and> 0 \<le> Math_round (percent s) \<and> Math_round (percent s) \<le> 100
   \<and> of_int (Math_round x) \<le> x + 1 / 2 \<and> x + 1 / 2 < of_int (Math_round x) + 1
   \<and> fdiv x y = fl (x / y) \<and> fmul x y = fl (x * y)
   \<and> fl 0 = 0
   \<and> (x \<noteq> 0 \<longrightarrow>
        fl x / ulp x \<in> \<int>
      \<and> \<bar>fl x - x\<bar> \<le> ulp x / 2
      \<and> (\<bar>fl x - x\<bar> = ulp x / 2 \<longrightarrow> even \<lfloor>fl x / ulp x\<rfloor>)
      \<and> (\<exists>e. 2 powi e \<le> \<bar>x\<bar> \<and> \<bar>x\<bar> < 2 powi (e + 1)
             \<and> ulp x = 2 powi (max e (- 1022) - 52)))
   \<and> (lo \<le> hi \<longrightarrow>
        (n < lo \<longrightarrow> clamp n lo hi = lo) \<and> (hi < n \<longrightarrow> clamp n lo hi = hi)
      \<and> (lo \<le> n \<and> n \<le> hi \<longrightarrow> clamp n lo hi = n))
   \<and> (totalCount s \<noteq> 0 \<longrightarrow>
        \<bar>percent s - of_nat (completedCount s) / of_nat (totalCount s) * 100\<bar> \<le> 302 / 2 ^ 53)
   \<and> \<bar>Math_round (percent s) - percent_spec (completedCount s) (totalCount s)\<bar> \<le> 1"
proof -
  have counts: "completedCount s \<le> totalCount s"
    by (simp add: completedCount_def totalCount_def)
  have empty: "totalCount s = 0 \<longrightarrow> percent s = 0 \<and> formatPercent (percent s) = ''0%''"
    by (simp add: percent_def formatPercent_zero)
  have shown: "totalCount s \<noteq> 0 \<longrightarrow>
        formatPercent (percent s)
          = toString (Math_round
              (clamp (fmul (fdiv (of_nat (completedCount s)) (of_nat (totalCount s))) 100) 0 100))
            @ ''%''"
    by (simp add: percent_def formatPercent_def)
  have ops: "fdiv x y = fl (x / y) \<and> fmul x y = fl (x * y)"
    by (simp add: fdiv_def fmul_def)
  have rounding: "x \<noteq> 0 \<longrightarrow>
        fl x / ulp x \<in> \<int>
      \<and> \<bar>fl x - x\<bar> \<le> ulp x / 2
      \<and> (\<bar>fl x - x\<bar> = ulp x / 2 \<longrightarrow> even \<lfloor>fl x / ulp x\<rfloor>)
      \<and> (\<exists>e. 2 powi e \<le> \<bar>x\<bar> \<and> \<bar>x\<bar> < 2 powi (e + 1)
             \<and> ulp x = 2 powi (max e (- 1022) - 52))"
    using fl_nearest [of x] ulp_exponent [of x] by blast
  have clamping: "lo \<le> hi \<longrightarrow>
        (n < lo \<longrightarrow> clamp n lo hi = lo) \<and> (hi < n \<longrightarrow> clamp n lo hi = hi)
      \<and> (lo \<le> n \<and> n \<le> hi \<longrightarrow> clamp n lo hi = n)"
    using clamp_cases [of lo hi n] by blast
  have close: "totalCount s \<noteq> 0 \<longrightarrow>
        \<bar>percent s - of_nat (completedCount s) / of_nat (totalCount s) * 100\<bar> \<le> 302 / 2 ^ 53"
    using percent_close [of s] by blast
  from counts empty shown percent_bounds [of s] Math_round_bounds [of "percent s"]
    Math_round_nearest [of x] ops fl_zero rounding clamping close shown_close [of s]
  show ?thesis by blast
qed

theorem percent_progress_witness:
  "completedCount two_tasks = 1 \<and> totalCount two_tasks = 2
   \<and> formatPercent (percent two_tasks) = ''50%''
   \<and> formatPercent (percent (initial :: nat board)) = ''0%''
   \<and> percent (initial :: nat board) = 0
   \<and> formatPercent (percent eight) = ''13%''
   \<and> formatPercent (percent forty) = ''57%''
   \<and> fl (1 / 3) = 6004799503160661 / 18014398509481984
   \<and> ulp (1 / 3) = 1 / 18014398509481984
   \<and> clamp 101 0 100 = 100"
proof -
  have evals: "formatPercent (percent two_tasks) = ''50%''"
    "formatPercent (percent eight) = ''13%''"
    "formatPercent (percent forty) = ''57%''"
    "fl (1 / 3) = 6004799503160661 / 18014398509481984"
    "ulp (1 / 3) = 1 / 18014398509481984"
    by code_simp+
  have counts: "completedCount two_tasks = 1 \<and> totalCount two_tasks = 2"
    by (simp add: completedCount_def totalCount_def two_tasks_def initial_def milk_def dog_def)
  have none: "totalCount (initial :: nat board) = 0"
    by (simp add: totalCount_def initial_def)
  from evals counts none
    percent_progress [of "initial :: nat board" "1 / 3" 3 0 100 101]
    percent_progress [of two_tasks "1 / 3" 3 0 100 101]
  show ?thesis
    by (simp add: formatPercent_zero)
qed

text \<open>The progress line of the board of forty tasks.\<close>

lemma progress_text_forty: "progress_text forty = ''57% (23/40)''"
  by code_simp

section \<open>Validation of a new title\<close>

text \<open>
  C6. If the trimmed title is shorter than 3 characters, \<^verbatim>\<open>onAdd\<close> sets the
  validation message and changes nothing else; in particular it sends no request. If
  the trimmed title has at least 3 characters, \<^verbatim>\<open>onAdd\<close> calls \<^verbatim>\<open>createTask\<close>
  with the trimmed title: exactly one request, the POST of that title, is sent.
\<close>

theorem onAdd_validation:
  "(length (trim (title_in s)) < 3 \<longrightarrow>
       onAdd srv s = s\<lparr>error := ''Task title must be at least 3 characters.''\<rparr>
     \<and> error (onAdd srv s) = ''Task title must be at least 3 characters.''
     \<and> sent (onAdd srv s) = sent s)
   \<and> (3 \<le> length (trim (title_in s)) \<longrightarrow>
       sent (onAdd srv s) = sent s @ [POST_tasks (trim (title_in s))])"
  by (auto simp add: onAdd_unfold onAdd_rejected_def onAdd_resolved_def onAdd_begin_def
      setSavedSoon_def split: settled.splits)

theorem onAdd_validation_witness:
  "sent (onAdd online (two_tasks\<lparr>title_in := ''  ab  ''\<rparr>)) = []
   \<and> error (onAdd online (two_tasks\<lparr>title_in := ''  ab  ''\<rparr>))
       = ''Task title must be at least 3 characters.''
   \<and> sent (onAdd online (two_tasks\<lparr>title_in := '' Feed cat ''\<rparr>)) = [POST_tasks ''Feed cat'']"
  using onAdd_validation [of "two_tasks\<lparr>title_in := ''  ab  ''\<rparr>" online]
    onAdd_validation [of "two_tasks\<lparr>title_in := '' Feed cat ''\<rparr>" online]
  by (simp add: trim_ab trim_cat two_tasks_def initial_def)

section \<open>Focus mode\<close>

text \<open>
  C7. With focus mode on, the rendered list is the list of the tasks that are not
  completed, in their original order (a subsequence of the task list that holds
  exactly its uncompleted entries); with focus mode off it is the task list itself.
  Switching focus mode changes neither the task list nor the requests sent, and
  switching it off shows the whole list again.
\<close>

theorem visibleTasks_focus:
  "(focusMode s \<longrightarrow>
        visibleTasks s = filter (\<lambda>t. \<not> completed t) (tasks s)
      \<and> subseq (visibleTasks s) (tasks s)
      \<and> set (visibleTasks s) = {t \<in> set (tasks s). \<not> completed t})
   \<and> (\<not> focusMode s \<longrightarrow> visibleTasks s = tasks s)
   \<and> tasks (setFocusMode v s) = tasks s
   \<and> sent (setFocusMode v s) = sent s
   \<and> focusMode (setFocusMode v s) = v
   \<and> visibleTasks (setFocusMode False s) = tasks s
   \<and> visibleTasks (setFocusMode True s) = filter (\<lambda>t. \<not> completed t) (tasks s)"
  by (auto simp add: visibleTasks_def setFocusMode_def)

theorem visibleTasks_focus_witness:
  "visibleTasks (setFocusMode True two_tasks) = [milk]
   \<and> visibleTasks (setFocusMode False (setFocusMode True two_tasks)) = [milk, dog]
   \<and> sent (setFocusMode True two_tasks) = []"
  using visibleTasks_focus [of "setFocusMode True two_tasks" False]
    visibleTasks_focus [of "setFocusMode False (setFocusMode True two_tasks)" False]
  by (simp add: setFocusMode_def two_tasks_def initial_def milk_def dog_def)

section \<open>A failed load\<close>

text \<open>
  C8. If the request of \<^verbatim>\<open>load\<close> is rejected, the task list is the one before the
  load (so it is still empty when no load has succeeded yet) and the message asking to
  refresh is set. The loading flag is set when the load begins and is clear when it
  has ended, whatever the backend answered.
\<close>

theorem load_failure:
  assumes "on_get srv = Rejected"
  shows "tasks (load srv s) = tasks s
       \<and> error (load srv s) = ''Could not load tasks. Please refresh.''
       \<and> loading (load_begin s)
       \<and> \<not> loading (load srv s)
       \<and> \<not> loading (load srv' s)
       \<and> tasks (load srv initial) = []"
  using assms
  by (auto simp add: load_unfold load_rejected_def load_resolved_def load_begin_def initial_def
      split: settled.splits)

theorem load_failure_witness:
  "tasks (load offline two_tasks) = [milk, dog]
   \<and> tasks (load offline (initial :: nat board)) = []
   \<and> error (load offline two_tasks) = ''Could not load tasks. Please refresh.''
   \<and> \<not> loading (load offline two_tasks)
   \<and> \<not> loading (load online two_tasks)"
  using load_failure [of offline two_tasks online]
  by (simp add: offline_def two_tasks_def initial_def)

section \<open>What a toggle leaves alone\<close>

text \<open>
  C9. Each part of the toggle (the optimistic flip, the reconciliation after a success,
  the revert after a failure), and so the whole handler, keeps the length of the task
  list and leaves every entry whose id is not the toggled task's id as it is and where
  it is. The flip and the revert keep the sequence of ids; the reconciliation keeps it
  when the Task of the response has the id of the toggled task.
\<close>

theorem onToggle_frame:
  "length (tasks (onToggle_begin t0 s)) = length (tasks s)
   \<and> length (tasks (onToggle_resolved t0 res s)) = length (tasks s)
   \<and> length (tasks (onToggle_rejected t0 s)) = length (tasks s)
   \<and> (\<forall>j < length (tasks s). id_t (tasks s ! j) \<noteq> id_t t0 \<longrightarrow>
          tasks (onToggle_begin t0 s) ! j = tasks s ! j
        \<and> tasks (onToggle_resolved t0 res s) ! j = tasks s ! j
        \<and> tasks (onToggle_rejected t0 s) ! j = tasks s ! j)
   \<and> map id_t (tasks (onToggle_begin t0 s)) = map id_t (tasks s)
   \<and> map id_t (tasks (onToggle_rejected t0 s)) = map id_t (tasks s)
   \<and> (id_t (task res) = id_t t0 \<longrightarrow>
          map id_t (tasks (onToggle_resolved t0 res s)) = map id_t (tasks s))
   \<and> length (tasks (onToggle srv t0 s)) = length (tasks s)
   \<and> (\<forall>j < length (tasks s). id_t (tasks s ! j) \<noteq> id_t t0 \<longrightarrow>
          tasks (onToggle srv t0 s) ! j = tasks s ! j)"
  by (auto simp add: onToggle_unfold onToggle_begin_def onToggle_resolved_def
      onToggle_rejected_def setSavedSoon_def split: settled.splits)

theorem onToggle_frame_witness:
  "tasks (onToggle_begin milk two_tasks) ! 1 = dog
   \<and> tasks (onToggle_resolved milk \<lparr>task = milk\<lparr>completed := True\<rparr>\<rparr> two_tasks) ! 1 = dog
   \<and> tasks (onToggle_rejected milk two_tasks) ! 1 = dog
   \<and> tasks (onToggle online milk two_tasks) ! 1 = dog
   \<and> length (tasks (onToggle online milk two_tasks)) = 2
   \<and> map id_t (tasks (onToggle_resolved milk \<lparr>task = milk\<lparr>completed := True\<rparr>\<rparr> two_tasks))
        = [1, 2]"
  using onToggle_frame [of milk two_tasks "\<lparr>task = milk\<lparr>completed := True\<rparr>\<rparr>" online]
  by (simp add: two_tasks_def initial_def milk_def dog_def)

section \<open>What a delete removes\<close>

text \<open>
  C10. The optimistic removal of the delete keeps exactly the entries whose id is not
  the id of the task: every entry with that id is removed, all of them when several
  entries share it, and the other entries stay, in their original order.
\<close>

theorem onDelete_removes_by_id:
  "tasks (onDelete_begin t0 s) = filter (\<lambda>t. id_t t \<noteq> id_t t0) (tasks s)
   \<and> (\<forall>t \<in> set (tasks (onDelete_begin t0 s)). id_t t \<noteq> id_t t0)
   \<and> (\<forall>t \<in> set (tasks s). id_t t \<noteq> id_t t0 \<longrightarrow> t \<in> set (tasks (onDelete_begin t0 s)))
   \<and> subseq (tasks (onDelete_begin t0 s)) (tasks s)
   \<and> filter (\<lambda>t. id_t t \<noteq> id_t t0) (tasks (onDelete_begin t0 s))
        = filter (\<lambda>t. id_t t \<noteq> id_t t0) (tasks s)"
  by (auto simp add: onDelete_begin_def)

theorem onDelete_removes_by_id_witness:
  "tasks (onDelete_begin milk
            (two_tasks\<lparr>tasks := [milk, dog, milk\<lparr>title := ''Buy oat milk''\<rparr>, dog]\<rparr>))
     = [dog, dog]"
  using onDelete_removes_by_id
    [of milk "two_tasks\<lparr>tasks := [milk, dog, milk\<lparr>title := ''Buy oat milk''\<rparr>, dog]\<rparr>"]
  by (simp add: milk_def dog_def two_tasks_def initial_def)

end
